theory Spec2Isabelle
  imports Main
begin

section \<open>Task API: a shallow embedding of the route handlers\<close>

text \<open>
  The development embeds the Express route handlers of the task API (the routes file
  and the Mongoose schema of the task model) as HOL functions. A request handler
  becomes a function from the request and the stored collection to a response and the
  collection afterwards. Everything the handlers reach outside the repository (the
  database's regular expression operator, the clock, the date library's generic parser,
  the object identifier test, storage faults and the extraction service) is a field of
  an environment record, so every theorem holds for whatever these collaborators do.

  Strings are lists of 8-bit characters, read as code units below 256; request fields
  are strings or absent (\<open>None\<close> stands for both \<open>undefined\<close> and \<open>null\<close>).
\<close>

subsection \<open>Strings\<close>

text \<open>The characters \<open>String.prototype.trim\<close> removes, among the code units below 256.\<close>

definition whitespace_chars :: "char list" where
  "whitespace_chars = [CHR 0x09, CHR 0x0A, CHR 0x0B, CHR 0x0C, CHR 0x0D, CHR 0x20, CHR 0xA0]"

definition is_space :: "char \<Rightarrow> bool" where
  "is_space c = (c \<in> set whitespace_chars)"

definition trim :: "string \<Rightarrow> string" where
  "trim s = rev (dropWhile is_space (rev (dropWhile is_space s)))"

definition substring0 :: "nat \<Rightarrow> string \<Rightarrow> string" where
  \<comment> \<open>\<open>s.substring(0, n)\<close>\<close>
  "substring0 n s = take n s"

definition lower_char :: "char \<Rightarrow> char" where
  "lower_char c = (let n = (of_char c :: nat) in
     if (65 \<le> n \<and> n \<le> 90) \<or> (192 \<le> n \<and> n \<le> 222 \<and> n \<noteq> 215)
     then char_of (n + 32) else c)"

definition toLowerCase :: "string \<Rightarrow> string" where
  "toLowerCase s = map lower_char s"

fun str_includes :: "string \<Rightarrow> string \<Rightarrow> bool" where
  \<comment> \<open>\<open>s.includes(n)\<close>\<close>
  "str_includes [] n = (n = [])"
| "str_includes (c # cs) n = (take (length n) (c # cs) = n \<or> str_includes cs n)"

text \<open>JavaScript truthiness of an optional string, and \<open>a || b\<close> on optional strings.\<close>

definition truthy :: "string option \<Rightarrow> bool" where
  "truthy v = (case v of None \<Rightarrow> False | Some s \<Rightarrow> s \<noteq> [])"

definition js_or :: "string option \<Rightarrow> string option \<Rightarrow> string option" where
  "js_or a b = (if truthy a then a else b)"

subsection \<open>Dates\<close>

record date =
  d_year :: int
  d_month :: nat
  d_day :: nat

definition digits :: "char list" where
  "digits = ''0123456789''"

definition is_digit :: "char \<Rightarrow> bool" where
  "is_digit c = (c \<in> set digits)"

definition digit_val :: "char \<Rightarrow> nat" where
  \<comment> \<open>the value of a digit: its place among the ten digits\<close>
  "digit_val c = length (takeWhile (\<lambda>d. d \<noteq> c) digits)"

definition digit_char :: "nat \<Rightarrow> char" where
  \<comment> \<open>the digit of a number below ten\<close>
  "digit_char n = digits ! (n mod 10)"

definition dec_val :: "string \<Rightarrow> nat" where
  "dec_val s = foldl (\<lambda>a c. 10 * a + digit_val c) 0 s"

text \<open>The test \<open>/^\d{2}-\d{2}-\d{4}$/.test(dueDate)\<close> of both write handlers.\<close>

definition matches_ddmmyyyy :: "string \<Rightarrow> bool" where
  "matches_ddmmyyyy s =
     (length s = 10 \<and> list_all is_digit (take 2 s) \<and> take 1 (drop 2 s) = ''-'' \<and>
      list_all is_digit (take 2 (drop 3 s)) \<and> take 1 (drop 5 s) = ''-'' \<and>
      list_all is_digit (drop 6 s))"

definition isLeapYear :: "int \<Rightarrow> bool" where
  "isLeapYear y = ((y mod 4 = 0 \<and> y mod 100 \<noteq> 0) \<or> y mod 400 = 0)"

definition daysInMonth :: "int \<Rightarrow> nat \<Rightarrow> nat" where
  \<comment> \<open>the date library's table, for a month numbered from 1\<close>
  "daysInMonth y m =
     (if m = 2 then (if isLeapYear y then 29 else 28) else 31 - (((m - 1) mod 7) mod 2))"

text \<open>
  \<open>moment(s, 'DD-MM-YYYY')\<close> on a string that passed the test above: the three digit
  groups are read as day, month and year, and the moment is valid when the month is
  1 to 12 and the day exists in that month. \<open>None\<close> is an invalid moment.
\<close>

definition moment_ddmmyyyy :: "string \<Rightarrow> date option" where
  "moment_ddmmyyyy s =
     (let d = dec_val (take 2 s); m = dec_val (take 2 (drop 3 s)); y = int (dec_val (drop 6 s))
      in if 1 \<le> m \<and> m \<le> 12 \<and> 1 \<le> d \<and> d \<le> daysInMonth y m
         then Some \<lparr>d_year = y, d_month = m, d_day = d\<rparr> else None)"

text \<open>\<open>moment(s, 'DD-MM-YYYY', true)\<close>: strict parsing accepts the exact layout only.\<close>

definition moment_strict :: "string \<Rightarrow> date option" where
  "moment_strict s = (if matches_ddmmyyyy s then moment_ddmmyyyy s else None)"

definition isBefore_day :: "date \<Rightarrow> date \<Rightarrow> bool" where
  \<comment> \<open>\<open>a.isBefore(b, 'day')\<close>: the calendar day of \<open>a\<close> is strictly before that of \<open>b\<close>\<close>
  "isBefore_day a b =
     (d_year a < d_year b \<or> (d_year a = d_year b \<and>
        (d_month a < d_month b \<or> (d_month a = d_month b \<and> d_day a < d_day b))))"

fun zero_fill :: "nat \<Rightarrow> nat \<Rightarrow> string" where
  \<comment> \<open>the decimal digits of \<open>n\<close>, filled with zeros on the left to at least \<open>w\<close> digits\<close>
  "zero_fill w n =
     (if n < 10 then replicate (w - 1) (CHR ''0'') @ [digit_char n]
      else zero_fill (w - 1) (n div 10) @ [digit_char (n mod 10)])"

declare zero_fill.simps [simp del]

definition format_ddmmyyyy :: "date \<Rightarrow> string" where
  \<comment> \<open>\<open>m.format('DD-MM-YYYY')\<close>\<close>
  "format_ddmmyyyy d =
     zero_fill 2 (d_day d) @ ''-'' @ zero_fill 2 (d_month d) @ ''-'' @
     (if d_year d < 0 then ''-'' else '''') @ zero_fill 4 (nat \<bar>d_year d\<bar>)"

subsection \<open>The task model and its schema\<close>

text \<open>
  The six schema paths of a task. The same fields make up a request body; a stored
  document adds the identifier the storage layer assigns. The schema declares no
  timestamps, so no handler ever sets \<open>createdAt\<close>; the field is kept because the
  list queries sort on it.
\<close>

record task_fields =
  title :: "string option"
  description :: "string option"
  status :: "string option"
  priority :: "string option"
  dueDate :: "string option"
  transcript :: "string option"

record task = task_fields +
  oid :: nat
  createdAt :: "nat option"

record update_body = task_fields +
  body_id :: "string option"

definition validStatuses :: "string list" where
  "validStatuses = [''To Do'', ''In Progress'', ''Done'']"

definition validPriorities :: "string list" where
  "validPriorities = [''Low'', ''Medium'', ''High'', ''Critical'']"

text \<open>
  Errors raised by a collaborator (the storage driver, the extraction client) carry a
  message and possibly a cause code. An exception inside a handler is one of: a schema
  validation error with its failing paths and messages in validation order, a
  \<open>TypeError\<close> from a method call on \<open>undefined\<close>, a pattern the database rejects,
  a pipeline stage the database rejects, or a collaborator's error.
\<close>

record js_error =
  cause_code :: "string option"
  err_message :: string

datatype exn =
    ValidationError "(string \<times> string) list"
  | TypeError
  | RegexError
  | PipelineError
  | External js_error

text \<open>The validators of a string path, in the order the schema library runs them.\<close>

type_synonym validator = "(string option \<Rightarrow> bool) \<times> string"

definition v_required :: "string \<Rightarrow> validator" where
  "v_required msg = (truthy, msg)"

definition v_minLength :: "nat \<Rightarrow> string \<Rightarrow> validator" where
  "v_minLength n msg = ((\<lambda>v. case v of None \<Rightarrow> True | Some s \<Rightarrow> n \<le> length s), msg)"

definition v_maxLength :: "nat \<Rightarrow> string \<Rightarrow> validator" where
  "v_maxLength n msg = ((\<lambda>v. case v of None \<Rightarrow> True | Some s \<Rightarrow> length s \<le> n), msg)"

definition v_enum :: "string list \<Rightarrow> string \<Rightarrow> validator" where
  "v_enum vals msg = ((\<lambda>v. case v of None \<Rightarrow> True | Some s \<Rightarrow> s \<in> set vals), msg)"

fun run_validators :: "validator list \<Rightarrow> string option \<Rightarrow> string option" where
  "run_validators [] v = None"
| "run_validators ((ok, msg) # vs) v = (if ok v then run_validators vs v else Some msg)"

text \<open>
  \<open>taskSchema\<close>: each path with its validators. The result of validating a document is
  the list of failing paths with the message of the first validator that failed on each.
  The handlers report the first entry only; the list is kept in the schema's
  declaration order.
\<close>

definition title_validators :: "validator list" where
  "title_validators =
     [v_required ''Title is required'',
      v_minLength 10 ''Title must be at least 10 characters'',
      v_maxLength 250 ''Title must not exceed 250 characters'']"

definition description_validators :: "validator list" where
  "description_validators =
     [v_required ''Description is required'',
      v_minLength 10 ''Description must be at least 10 characters'',
      v_maxLength 500 ''Description must not exceed 500 characters'']"

definition status_validators :: "validator list" where
  "status_validators = [v_enum validStatuses ''Status must be To Do, In Progress, or Done'']"

definition priority_validators :: "validator list" where
  "priority_validators =
     [v_required ''Priority is required'',
      v_enum validPriorities ''Priority must be Low, Medium, High, or Critical'']"

definition dueDate_validators :: "validator list" where
  "dueDate_validators = [v_required ''Due date is required'']"

definition transcript_validators :: "validator list" where
  "transcript_validators =
     [v_minLength 10 ''Transcript must be at least 10 characters'',
      v_maxLength 1000 ''Transcript must not exceed 1000 characters'']"

definition path_error :: "string \<Rightarrow> validator list \<Rightarrow> string option \<Rightarrow> (string \<times> string) list" where
  "path_error p vs v = (case run_validators vs v of None \<Rightarrow> [] | Some msg \<Rightarrow> [(p, msg)])"

definition validate :: "'a task_fields_scheme \<Rightarrow> (string \<times> string) list" where
  "validate doc =
     path_error ''title'' title_validators (title doc) @
     path_error ''description'' description_validators (description doc) @
     path_error ''status'' status_validators (status doc) @
     path_error ''priority'' priority_validators (priority doc) @
     path_error ''dueDate'' dueDate_validators (dueDate doc) @
     path_error ''transcript'' transcript_validators (transcript doc)"

subsection \<open>Collaborators\<close>

text \<open>What the extraction call and the JSON parse of its reply produce: an exception,
  or an object whose four fields are strings or absent.\<close>

record ai_json =
  j_title :: "string option"
  j_description :: "string option"
  j_priority :: "string option"
  j_dueDate :: "string option"

datatype ai_outcome = AiThrows js_error | AiParsed ai_json

text \<open>
  \<^item> \<open>rx_compile p\<close>: the database's \<open>$regex\<close> operator with option \<open>i\<close> for pattern
    \<open>p\<close>; \<open>None\<close> when the database rejects the pattern, else the test on a subject;
  \<^item> \<open>today\<close>: the current calendar day;
  \<^item> \<open>generic_parse s\<close>: the date library's format-free parse \<open>moment(s)\<close>, \<open>None\<close>
    for an invalid moment;
  \<^item> \<open>oid_cast s\<close>: the object identifier \<open>s\<close> denotes, \<open>None\<close> when
    \<open>ObjectId.isValid(s)\<close> is false;
  \<^item> \<open>storage_fault\<close>: the error every storage operation raises, if storage is failing;
  \<^item> \<open>extraction t\<close>: the outcome of the extraction call for transcript \<open>t\<close>.
\<close>

record env =
  rx_compile :: "string \<Rightarrow> (string \<Rightarrow> bool) option"
  today :: date
  generic_parse :: "string \<Rightarrow> date option"
  oid_cast :: "string \<Rightarrow> nat option"
  storage_fault :: "js_error option"
  extraction :: "string \<Rightarrow> ai_outcome"

subsection \<open>Storage operations\<close>

definition field_matches :: "(string \<Rightarrow> bool) \<Rightarrow> string option \<Rightarrow> bool" where
  \<comment> \<open>a \<open>$regex\<close> condition on a path: an absent path matches nothing\<close>
  "field_matches m v = (case v of None \<Rightarrow> False | Some s \<Rightarrow> m s)"

definition db_guard :: "env \<Rightarrow> 'a \<Rightarrow> exn + 'a" where
  "db_guard env r = (case storage_fault env of Some f \<Rightarrow> Inl (External f) | None \<Rightarrow> Inr r)"

definition findById :: "env \<Rightarrow> task list \<Rightarrow> nat \<Rightarrow> exn + task option" where
  "findById env store i = db_guard env (find (\<lambda>t. oid t = i) store)"

text \<open>
  \<open>Task.findOne({_id: {$ne: excl}, title: {$regex: tp, $options: 'i'},
  description: {$regex: dp, $options: 'i'}})\<close>, the \<open>_id\<close> condition present only on update.
\<close>

definition differs_from :: "nat option \<Rightarrow> task \<Rightarrow> bool" where
  "differs_from excl t = (case excl of None \<Rightarrow> True | Some i \<Rightarrow> oid t \<noteq> i)"

definition findOne_same :: "env \<Rightarrow> task list \<Rightarrow> nat option \<Rightarrow> string \<Rightarrow> string \<Rightarrow> exn + task option" where
  "findOne_same env store excl tp dp =
     (case storage_fault env of
        Some f \<Rightarrow> Inl (External f)
      | None \<Rightarrow>
          (case rx_compile env tp of
             None \<Rightarrow> Inl RegexError
           | Some mt \<Rightarrow>
               (case rx_compile env dp of
                  None \<Rightarrow> Inl RegexError
                | Some md \<Rightarrow>
                    Inr (find (\<lambda>t. differs_from excl t \<and> field_matches mt (title t) \<and>
                                    field_matches md (description t)) store))))"

definition fresh_oid :: "task list \<Rightarrow> nat" where
  "fresh_oid store = Suc (foldr max (map oid store) 0)"

definition new_Task :: "task list \<Rightarrow> task_fields \<Rightarrow> task" where
  \<comment> \<open>\<open>new Task(data)\<close>: a fresh identifier, and the schema's default for an unset status\<close>
  "new_Task store d =
     \<lparr>title = title d, description = description d,
      status = (case status d of None \<Rightarrow> Some ''To Do'' | Some s \<Rightarrow> Some s),
      priority = priority d, dueDate = dueDate d, transcript = transcript d,
      oid = fresh_oid store, createdAt = None\<rparr>"

text \<open>\<open>task.save()\<close>: validation first, then the write.\<close>

definition save_new :: "env \<Rightarrow> task list \<Rightarrow> task_fields \<Rightarrow> exn + (task \<times> task list)" where
  "save_new env store d =
     (let t = new_Task store d in
      case validate t of
        e # es \<Rightarrow> Inl (ValidationError (e # es))
      | [] \<Rightarrow> db_guard env (t, store @ [t]))"

definition save_existing :: "env \<Rightarrow> task list \<Rightarrow> task \<Rightarrow> exn + (task \<times> task list)" where
  "save_existing env store t =
     (case validate t of
        e # es \<Rightarrow> Inl (ValidationError (e # es))
      | [] \<Rightarrow> db_guard env (t, map (\<lambda>u. if oid u = oid t then t else u) store))"

fun delete_first :: "nat \<Rightarrow> task list \<Rightarrow> task list" where
  "delete_first i [] = []"
| "delete_first i (t # ts) = (if oid t = i then ts else t # delete_first i ts)"

text \<open>\<open>$sort: {createdAt: -1}\<close>: latest first, documents without the field last.\<close>

definition sort_createdAt_desc :: "task list \<Rightarrow> task list" where
  "sort_createdAt_desc ts =
     sort_key (\<lambda>t. case createdAt t of None \<Rightarrow> (1::int) | Some n \<Rightarrow> - int n) ts"

subsection \<open>Responses\<close>

record pagination =
  currentPage :: int
  totalPages :: int
  totalItems :: int
  hasNext :: bool
  hasPrev :: bool

record board_pagination = pagination +
  statusCounts :: "(string \<times> nat) list"

record extracted =
  x_title :: string
  x_description :: string
  x_priority :: string
  x_dueDate :: "string option"

text \<open>
  \<open>Fail c m\<close> is \<open>res.status(c).json({success: false, message: m})\<close> with a message the
  handler writes itself; \<open>Crash e\<close> is the catch-all \<open>res.status(500)\<close> that passes on
  the message of the exception \<open>e\<close>. The other responses have status 200.
\<close>

datatype response =
    Fail nat string
  | Crash exn
  | TaskOk "string option" task
  | DeletedOk
  | ListOk "task list" pagination
  | BoardOk "task list" board_pagination
  | ParsedOk extracted

fun http_status :: "response \<Rightarrow> nat" where
  "http_status (Fail c m) = c"
| "http_status (Crash e) = 500"
| "http_status (TaskOk m t) = 200"
| "http_status DeletedOk = 200"
| "http_status (ListOk ts p) = 200"
| "http_status (BoardOk ts p) = 200"
| "http_status (ParsedOk x) = 200"

text \<open>The catch block of the create and update handlers.\<close>

fun catch_write :: "exn \<Rightarrow> response" where
  "catch_write (ValidationError ((f, msg) # es)) = Fail 400 msg"
| "catch_write e = Crash e"

subsection \<open>Read handlers\<close>











definition str_of :: "string option \<Rightarrow> string" where
  "str_of v = (case v of None \<Rightarrow> [] | Some s \<Rightarrow> s)"

definition view_task :: "env \<Rightarrow> task list \<Rightarrow> string option \<Rightarrow> response" where
  "view_task env store qid =
     (if \<not> truthy qid then Fail 400 ''Task ID is required''
      else (case oid_cast env (str_of qid) of
              None \<Rightarrow> Fail 400 ''Invalid task ID''
            | Some i \<Rightarrow>
                (case findById env store i of
                   Inl e \<Rightarrow> Crash e
                 | Inr None \<Rightarrow> Fail 404 ''Task not found''
                 | Inr (Some t) \<Rightarrow> TaskOk None t)))"

subsection \<open>Write handlers\<close>

text \<open>
  The due date block that the create and update handlers share word for word: the
  fixed layout when the string passes the test, the generic parse otherwise; an
  invalid moment and a day before today are answered at once; otherwise the date is
  rendered again as \<open>DD-MM-YYYY\<close>.
\<close>

definition parse_dueDate :: "env \<Rightarrow> string \<Rightarrow> response + string" where
  "parse_dueDate env s =
     (case (if matches_ddmmyyyy s then moment_ddmmyyyy s else generic_parse env s) of
        None \<Rightarrow> Inl (Fail 400 ''Invalid due date format'')
      | Some d \<Rightarrow>
          if isBefore_day d (today env) then Inl (Fail 400 ''Due date must be in the future'')
          else Inr (format_ddmmyyyy d))"

definition dueDate_block :: "env \<Rightarrow> string option \<Rightarrow> string option \<Rightarrow> response + string option" where
  \<comment> \<open>\<open>if (dueDate) { ... }\<close>: a falsy due date skips the block and leaves \<open>skipped\<close>\<close>
  "dueDate_block env v skipped =
     (if truthy v then map_sum id Some (parse_dueDate env (str_of v)) else Inr skipped)"

definition interp_trim :: "string option \<Rightarrow> string" where
  \<comment> \<open>the template text of \<open>${v?.trim()}\<close>\<close>
  "interp_trim v = (case v of None \<Rightarrow> ''undefined'' | Some s \<Rightarrow> trim s)"

definition anchored :: "string \<Rightarrow> string" where
  "anchored p = ''^'' @ p @ ''$''"

definition create_transcript :: "task_fields \<Rightarrow> exn + string" where
  \<comment> \<open>the transcript of the new task: the request's own, or the start of the description or title\<close>
  "create_transcript b =
     (if truthy (map_option trim (transcript b)) then Inr (trim (str_of (transcript b)))
      else (case js_or (description b) (title b) of
              None \<Rightarrow> Inl TypeError
            | Some s \<Rightarrow> Inr (substring0 1000 s)))"

definition create_status :: "string option \<Rightarrow> string option" where
  \<comment> \<open>an unknown status becomes \<open>To Do\<close>, and so does a falsy one (\<open>status || 'To Do'\<close>)\<close>
  "create_status st =
     js_or (if truthy st \<and> st \<notin> Some ` set validStatuses then Some ''To Do'' else st)
           (Some ''To Do'')"

definition taskData :: "task_fields \<Rightarrow> string option \<Rightarrow> string \<Rightarrow> task_fields" where
  "taskData b parsedDate tr =
     \<lparr>title = map_option trim (title b),
      description = map_option trim (description b),
      status = create_status (status b),
      priority = priority b,
      dueDate = parsedDate,
      transcript = Some tr\<rparr>"

definition create_task :: "env \<Rightarrow> task list \<Rightarrow> task_fields \<Rightarrow> response \<times> task list" where
  "create_task env store b =
     (case findOne_same env store None (anchored (interp_trim (title b)))
                        (anchored (interp_trim (description b))) of
        Inl e \<Rightarrow> (catch_write e, store)
      | Inr (Some existing) \<Rightarrow>
          (Fail 400 ''Task with same title and description already exists'', store)
      | Inr None \<Rightarrow>
          (case dueDate_block env (dueDate b) None of
             Inl r \<Rightarrow> (r, store)
           | Inr parsedDate \<Rightarrow>
               (case create_transcript b of
                  Inl e \<Rightarrow> (catch_write e, store)
                | Inr tr \<Rightarrow>
                    (case save_new env store (taskData b parsedDate tr) of
                       Inl e \<Rightarrow> (catch_write e, store)
                     | Inr (t, store') \<Rightarrow>
                         (TaskOk (Some ''Task created successfully'') t, store')))))"

definition assign :: "task \<Rightarrow> 'a task_fields_scheme \<Rightarrow> task" where
  \<comment> \<open>\<open>Object.assign(task, req.body)\<close>: every field the body has replaces the task's\<close>
  "assign t b =
     t\<lparr>title := (case title b of None \<Rightarrow> title t | Some s \<Rightarrow> Some s),
       description := (case description b of None \<Rightarrow> description t | Some s \<Rightarrow> Some s),
       status := (case status b of None \<Rightarrow> status t | Some s \<Rightarrow> Some s),
       priority := (case priority b of None \<Rightarrow> priority t | Some s \<Rightarrow> Some s),
       dueDate := (case dueDate b of None \<Rightarrow> dueDate t | Some s \<Rightarrow> Some s),
       transcript := (case transcript b of None \<Rightarrow> transcript t | Some s \<Rightarrow> Some s)\<rparr>"

definition update_pattern :: "string option \<Rightarrow> string option \<Rightarrow> exn + string" where
  \<comment> \<open>the pattern \<open>^${(field || task.field).trim()}$\<close>\<close>
  "update_pattern v cur =
     (case js_or v cur of None \<Rightarrow> Inl TypeError | Some s \<Rightarrow> Inr (anchored (trim s)))"

definition update_duplicate :: "env \<Rightarrow> task list \<Rightarrow> nat \<Rightarrow> task \<Rightarrow> update_body \<Rightarrow> exn + task option" where
  "update_duplicate env store i t b =
     (if truthy (title b) \<or> truthy (description b)
      then (case update_pattern (title b) (title t) of
              Inl e \<Rightarrow> Inl e
            | Inr tp \<Rightarrow>
                (case update_pattern (description b) (description t) of
                   Inl e \<Rightarrow> Inl e
                 | Inr dp \<Rightarrow> findOne_same env store (Some i) tp dp))
      else Inr None)"

definition update_task :: "env \<Rightarrow> task list \<Rightarrow> update_body \<Rightarrow> response \<times> task list" where
  "update_task env store b =
     (if \<not> truthy (body_id b) then (Fail 400 ''Task ID is required'', store)
      else (case oid_cast env (str_of (body_id b)) of
              None \<Rightarrow> (Fail 400 ''Invalid task ID'', store)
            | Some i \<Rightarrow>
                (case findById env store i of
                   Inl e \<Rightarrow> (catch_write e, store)
                 | Inr None \<Rightarrow> (Fail 404 ''Task not found'', store)
                 | Inr (Some t) \<Rightarrow>
                     (case update_duplicate env store i t b of
                        Inl e \<Rightarrow> (catch_write e, store)
                      | Inr (Some existing) \<Rightarrow>
                          (Fail 400 ''Task with same title and description already exists'', store)
                      | Inr None \<Rightarrow>
                          (case dueDate_block env (dueDate b) (dueDate b) of
                             Inl r \<Rightarrow> (r, store)
                           | Inr due \<Rightarrow>
                               (case save_existing env store (assign t (b\<lparr>dueDate := due\<rparr>)) of
                                  Inl e \<Rightarrow> (catch_write e, store)
                                | Inr (t', store') \<Rightarrow> (TaskOk None t', store')))))))"

definition delete_task :: "env \<Rightarrow> task list \<Rightarrow> string option \<Rightarrow> response \<times> task list" where
  "delete_task env store qid =
     (if \<not> truthy qid then (Fail 400 ''Task ID is required'', store)
      else (case oid_cast env (str_of qid) of
              None \<Rightarrow> (Fail 400 ''Invalid task ID'', store)
            | Some i \<Rightarrow>
                (case findById env store i of
                   Inl e \<Rightarrow> (Crash e, store)
                 | Inr None \<Rightarrow> (Fail 404 ''Task not found'', store)
                 | Inr (Some t) \<Rightarrow> (DeletedOk, delete_first i store))))"

subsection \<open>Voice handlers\<close>

definition fallback :: "string \<Rightarrow> extracted" where
  \<comment> \<open>the inner catch block of both voice handlers\<close>
  "fallback tr =
     \<lparr>x_title = substring0 100 tr,
      x_description = tr,
      x_priority =
        (if str_includes (toLowerCase tr) ''critical'' then ''Critical''
         else if str_includes (toLowerCase tr) ''high'' then ''High''
         else if str_includes (toLowerCase tr) ''low'' then ''Low'' else ''Medium''),
      x_dueDate = None\<rparr>"

definition or_else :: "string option \<Rightarrow> string \<Rightarrow> string" where
  "or_else v d = (case v of None \<Rightarrow> d | Some s \<Rightarrow> if s = [] then d else s)"

definition from_ai :: "env \<Rightarrow> nat \<Rightarrow> string \<Rightarrow> ai_json \<Rightarrow> extracted" where
  \<comment> \<open>the rest of the inner try block, after \<open>JSON.parse\<close>; \<open>n\<close> is 100 or 50\<close>
  "from_ai env n tr p =
     \<lparr>x_title = or_else (j_title p) (substring0 n tr),
      x_description = or_else (j_description p) tr,
      x_priority =
        (case j_priority p of
           None \<Rightarrow> ''Medium''
         | Some s \<Rightarrow> if s \<in> set validPriorities then s else ''Medium''),
      x_dueDate =
        (case j_dueDate p of
           None \<Rightarrow> None
         | Some s \<Rightarrow>
             if s = [] \<or> s = ''null'' then None
             else (case moment_strict s of
                     None \<Rightarrow> None
                   | Some d \<Rightarrow> if isBefore_day d (today env) then None else Some s))\<rparr>"

definition extract_fields :: "env \<Rightarrow> nat \<Rightarrow> string \<Rightarrow> extracted" where
  "extract_fields env n tr =
     (case extraction env tr of AiThrows e \<Rightarrow> fallback tr | AiParsed p \<Rightarrow> from_ai env n tr p)"

definition transcript_guard :: "string option \<Rightarrow> response + string" where
  \<comment> \<open>the two checks both voice handlers start with\<close>
  "transcript_guard v =
     (case v of
        None \<Rightarrow> Inl (Fail 400 ''Transcript is required'')
      | Some s \<Rightarrow>
          if s = [] \<or> trim s = [] then Inl (Fail 400 ''Transcript is required'')
          else if length s > 5000 then Inl (Fail 400 ''Transcript too long'')
          else Inr s)"

definition parse_voice_data :: "env \<Rightarrow> string option \<Rightarrow> response" where
  "parse_voice_data env v =
     (case transcript_guard v of
        Inl r \<Rightarrow> r
      | Inr tr \<Rightarrow> ParsedOk (extract_fields env 100 tr))"

text \<open>The outer catch block of the persisting voice handler.\<close>

fun catch_voice :: "exn \<Rightarrow> response" where
  "catch_voice (ValidationError ((f, msg) # es)) = Fail 400 msg"
| "catch_voice (External e) =
     (if cause_code e = Some ''ENOTFOUND'' \<or> str_includes (err_message e) ''fetch failed''
      then Fail 503 ''Unable to reach AI service. Check network connection or API key.''
      else Fail 500 ''Failed to create task from transcript.'')"
| "catch_voice e = Fail 500 ''Failed to create task from transcript.''"

definition voice_task :: "extracted \<Rightarrow> string \<Rightarrow> task_fields" where
  \<comment> \<open>the fields of the task the persisting voice handler creates\<close>
  "voice_task x tr =
     \<lparr>title = Some (trim (x_title x)),
      description = Some (trim (x_description x)),
      status = Some ''To Do'',
      priority = Some (x_priority x),
      dueDate = x_dueDate x,
      transcript = Some (trim tr)\<rparr>"

definition parse_voice :: "env \<Rightarrow> task list \<Rightarrow> string option \<Rightarrow> response \<times> task list" where
  "parse_voice env store v =
     (case transcript_guard v of
        Inl r \<Rightarrow> (r, store)
      | Inr tr \<Rightarrow>
          (case save_new env store (voice_task (extract_fields env 50 tr) tr) of
             Inl e \<Rightarrow> (catch_voice e, store)
           | Inr (t, store') \<Rightarrow> (TaskOk (Some ''Task created from voice input'') t, store')))"

subsection \<open>A concrete environment\<close>

text \<open>
  To run the handlers on concrete requests the collaborators need instances. Each one
  covers a fragment of the real collaborator and agrees with it there:
  \<^item> patterns built from literal characters and \<open>.\<close>, alone or between \<open>^\<close> and \<open>$\<close>,
    matched without regard to case; \<open>.\<close> matches any character but a line feed, and
    \<open>$\<close> also matches before a final line feed. A pattern using any other
    metacharacter is outside the fragment and is reported as rejected;
  \<^item> identifiers written as 24 hexadecimal digits;
  \<^item> the generic date parse on ISO calendar dates \<open>YYYY-MM-DD\<close>, every other string
    being an invalid moment.
\<close>

definition rx_meta :: "char list" where
  "rx_meta = [CHR 0x5C, CHR ''^'', CHR ''$'', CHR ''.'', CHR ''|'', CHR ''?'', CHR ''*'',
              CHR ''+'', CHR ''('', CHR '')'', CHR ''['', CHR '']'', CHR ''{'', CHR ''}'']"

definition in_fragment :: "string \<Rightarrow> bool" where
  "in_fragment p = list_all (\<lambda>c. c = CHR ''.'' \<or> c \<notin> set rx_meta) p"

fun atoms_match :: "string \<Rightarrow> string \<Rightarrow> bool" where
  "atoms_match [] s = (s = [])"
| "atoms_match (c # p) [] = False"
| "atoms_match (c # p) (x # s) =
     ((if c = CHR ''.'' then x \<noteq> CHR 0x0A else lower_char c = lower_char x) \<and> atoms_match p s)"

fun atoms_search :: "string \<Rightarrow> string \<Rightarrow> bool" where
  "atoms_search p [] = atoms_match p []"
| "atoms_search p (x # s) = (atoms_match p (take (length p) (x # s)) \<or> atoms_search p s)"

definition fragment_compile :: "string \<Rightarrow> (string \<Rightarrow> bool) option" where
  "fragment_compile pat =
     (case pat of
        [] \<Rightarrow> Some (\<lambda>s. True)
      | c # rest \<Rightarrow>
          if c = CHR ''^'' \<and> rest \<noteq> [] \<and> last rest = CHR ''$'' \<and> in_fragment (butlast rest)
          then Some (\<lambda>s. atoms_match (butlast rest) s \<or>
                          (s \<noteq> [] \<and> last s = CHR 0x0A \<and> atoms_match (butlast rest) (butlast s)))
          else if in_fragment pat then Some (atoms_search pat)
          else None)"

definition hex_digits :: "char list" where
  "hex_digits = ''0123456789abcdef''"

definition hex24_cast :: "string \<Rightarrow> nat option" where
  "hex24_cast s =
     (if length s = 24 \<and> list_all (\<lambda>c. lower_char c \<in> set hex_digits) s
      then Some (foldl (\<lambda>a c. 16 * a + length (takeWhile (\<lambda>d. d \<noteq> lower_char c) hex_digits)) 0 s)
      else None)"

definition iso_parse :: "string \<Rightarrow> date option" where
  "iso_parse s =
     (if length s = 10 \<and> list_all is_digit (take 4 s) \<and> take 1 (drop 4 s) = ''-'' \<and>
         list_all is_digit (take 2 (drop 5 s)) \<and> take 1 (drop 7 s) = ''-'' \<and>
         list_all is_digit (drop 8 s)
      then (let y = int (dec_val (take 4 s)); m = dec_val (take 2 (drop 5 s)); d = dec_val (drop 8 s)
            in if 1 \<le> m \<and> m \<le> 12 \<and> 1 \<le> d \<and> d \<le> daysInMonth y m
               then Some \<lparr>d_year = y, d_month = m, d_day = d\<rparr> else None)
      else None)"

text \<open>
  The environment of the examples: the day is 2 November 2026, storage works, and the
  extraction service cannot be reached.
\<close>

definition unreachable :: js_error where
  "unreachable = \<lparr>cause_code = Some ''ENOTFOUND'', err_message = ''fetch failed''\<rparr>"

definition example_env :: env where
  "example_env =
     \<lparr>rx_compile = fragment_compile,
      today = \<lparr>d_year = 2026, d_month = 11, d_day = 2\<rparr>,
      generic_parse = iso_parse,
      oid_cast = hex24_cast,
      storage_fault = None,
      extraction = (\<lambda>t. AiThrows unreachable)\<rparr>"

definition example_task :: task where
  "example_task =
     \<lparr>title = Some ''Deploy v1x0 to production'',
      description = Some ''Roll out the new build'',
      status = Some ''To Do'',
      priority = Some ''High'',
      dueDate = Some ''31-12-2099'',
      transcript = Some ''Roll out the new build'',
      oid = 1, createdAt = None\<rparr>"

definition example_id :: string where
  "example_id = ''000000000000000000000001''"

definition example_store :: "task list" where
  "example_store =
     [example_task, example_task\<lparr>oid := 2\<rparr>, example_task\<lparr>oid := 3, status := Some ''Done''\<rparr>]"


section \<open>Properties\<close>

subsection \<open>Page arithmetic\<close>





lemma length_sort_createdAt_desc [simp]: "length (sort_createdAt_desc ts) = length ts"
  by (simp add: sort_createdAt_desc_def)





subsection \<open>The flat list\<close>



subsection \<open>The board\<close>




subsection \<open>Identifier guards\<close>

lemma catch_write_status: "http_status (catch_write e) = 400 \<or> http_status (catch_write e) = 500"
  by (cases e rule: catch_write.cases) simp_all

lemma parse_dueDate_status: "parse_dueDate env s = Inl r \<Longrightarrow> http_status r = 400"
  by (auto simp add: parse_dueDate_def split: option.splits if_splits)

lemma view_task_404:
  "http_status (view_task env store qid) = 404 \<Longrightarrow>
   truthy qid \<and> (\<exists>i. oid_cast env (str_of qid) = Some i \<and> (\<forall>t\<in>set store. oid t \<noteq> i))"
  by (auto simp add: view_task_def findById_def db_guard_def find_None_iff
           split: if_splits option.splits sum.splits)

lemma delete_task_404:
  "http_status (fst (delete_task env store qid)) = 404 \<Longrightarrow>
   truthy qid \<and> (\<exists>i. oid_cast env (str_of qid) = Some i \<and> (\<forall>t\<in>set store. oid t \<noteq> i))"
  by (auto simp add: delete_task_def findById_def db_guard_def find_None_iff
           split: if_splits option.splits sum.splits)

lemma delete_task_unchanged:
  "http_status (fst (delete_task env store qid)) \<noteq> 200 \<Longrightarrow> snd (delete_task env store qid) = store"
  by (auto simp add: delete_task_def split: if_splits option.splits sum.splits)

lemma catch_write_not_404: "http_status (catch_write e) \<noteq> 404"
  using catch_write_status [of e] by auto

lemma map_sum_Inl: "map_sum id Some x = Inl r \<Longrightarrow> x = Inl r"
  by (cases x) simp_all

lemma dueDate_block_status: "dueDate_block env v k = Inl r \<Longrightarrow> http_status r = 400"
  by (auto simp add: dueDate_block_def split: if_splits dest!: map_sum_Inl parse_dueDate_status)

lemma update_task_404:
  assumes "http_status (fst (update_task env store b)) = 404"
  shows "truthy (body_id b) \<and>
         (\<exists>i. oid_cast env (str_of (body_id b)) = Some i \<and> (\<forall>t\<in>set store. oid t \<noteq> i))"
proof -
  have t: "truthy (body_id b)" using assms by (auto simp add: update_task_def split: if_splits)
  then obtain i where i: "oid_cast env (str_of (body_id b)) = Some i"
    using assms by (cases "oid_cast env (str_of (body_id b))") (auto simp add: update_task_def)
  have "findById env store i = Inr None"
  proof (cases "findById env store i")
    case (Inl e)
    then show ?thesis using assms t i catch_write_not_404 [of e] by (simp add: update_task_def)
  next
    case (Inr r)
    show ?thesis
    proof (cases r)
      case None
      then show ?thesis using Inr by simp
    next
      case (Some u)
      have "http_status (fst (update_task env store b)) \<noteq> 404"
        using t i Inr Some catch_write_not_404
        by (auto simp add: update_task_def split: sum.splits option.splits dest!: dueDate_block_status)
      then show ?thesis using assms by simp
    qed
  qed
  then have "\<forall>t\<in>set store. oid t \<noteq> i"
    by (auto simp add: findById_def db_guard_def find_None_iff split: option.splits)
  then show ?thesis using t i by simp
qed

lemma update_task_unchanged:
  "http_status (fst (update_task env store b)) \<noteq> 200 \<Longrightarrow> snd (update_task env store b) = store"
  by (auto simp add: update_task_def split: if_splits option.splits sum.splits)

text \<open>
  Claim C10. For view-task, update-task and delete-task: a missing identifier and an
  identifier that is not a valid object identifier are answered with 400 whatever the
  collection holds and whether or not storage works; the answer 404 occurs only for a
  valid identifier that no stored task has; and whenever the answer is 400 or 404 the
  stored tasks are unchanged.
\<close>

theorem id_guards_before_lookup:
  "(\<not> truthy qid \<longrightarrow>
      view_task env store qid = Fail 400 ''Task ID is required'' \<and>
      delete_task env store qid = (Fail 400 ''Task ID is required'', store)) \<and>
   (truthy qid \<and> oid_cast env (str_of qid) = None \<longrightarrow>
      view_task env store qid = Fail 400 ''Invalid task ID'' \<and>
      delete_task env store qid = (Fail 400 ''Invalid task ID'', store)) \<and>
   (\<not> truthy (body_id b) \<longrightarrow> update_task env store b = (Fail 400 ''Task ID is required'', store)) \<and>
   (truthy (body_id b) \<and> oid_cast env (str_of (body_id b)) = None \<longrightarrow>
      update_task env store b = (Fail 400 ''Invalid task ID'', store)) \<and>
   (http_status (view_task env store qid) = 404 \<or> http_status (fst (delete_task env store qid)) = 404 \<longrightarrow>
      truthy qid \<and> (\<exists>i. oid_cast env (str_of qid) = Some i \<and> (\<forall>t\<in>set store. oid t \<noteq> i))) \<and>
   (http_status (fst (update_task env store b)) = 404 \<longrightarrow>
      truthy (body_id b) \<and>
      (\<exists>i. oid_cast env (str_of (body_id b)) = Some i \<and> (\<forall>t\<in>set store. oid t \<noteq> i))) \<and>
   (http_status (fst (delete_task env store qid)) \<in> {400, 404} \<longrightarrow>
      snd (delete_task env store qid) = store) \<and>
   (http_status (fst (update_task env store b)) \<in> {400, 404} \<longrightarrow>
      snd (update_task env store b) = store)"
proof -
  have a: "\<not> truthy qid \<longrightarrow>
      view_task env store qid = Fail 400 ''Task ID is required'' \<and>
      delete_task env store qid = (Fail 400 ''Task ID is required'', store)"
    by (simp add: view_task_def delete_task_def)
  have b: "truthy qid \<and> oid_cast env (str_of qid) = None \<longrightarrow>
      view_task env store qid = Fail 400 ''Invalid task ID'' \<and>
      delete_task env store qid = (Fail 400 ''Invalid task ID'', store)"
    by (simp add: view_task_def delete_task_def)
  have c: "\<not> truthy (body_id b) \<longrightarrow> update_task env store b = (Fail 400 ''Task ID is required'', store)"
    by (simp add: update_task_def)
  have d: "truthy (body_id b) \<and> oid_cast env (str_of (body_id b)) = None \<longrightarrow>
      update_task env store b = (Fail 400 ''Invalid task ID'', store)"
    by (simp add: update_task_def)
  have e: "http_status (view_task env store qid) = 404 \<or> http_status (fst (delete_task env store qid)) = 404 \<longrightarrow>
      truthy qid \<and> (\<exists>i. oid_cast env (str_of qid) = Some i \<and> (\<forall>t\<in>set store. oid t \<noteq> i))"
    using view_task_404 [of env store qid] delete_task_404 [of env store qid] by blast
  have f: "http_status (fst (update_task env store b)) = 404 \<longrightarrow>
      truthy (body_id b) \<and>
      (\<exists>i. oid_cast env (str_of (body_id b)) = Some i \<and> (\<forall>t\<in>set store. oid t \<noteq> i))"
    using update_task_404 [of env store b] by blast
  have g: "http_status (fst (delete_task env store qid)) \<in> {400, 404} \<longrightarrow>
      snd (delete_task env store qid) = store"
    using delete_task_unchanged [of env store qid] by auto
  have h: "http_status (fst (update_task env store b)) \<in> {400, 404} \<longrightarrow>
      snd (update_task env store b) = store"
    using update_task_unchanged [of env store b] by auto
  show ?thesis by (intro conjI) (rule a b c d e f g h)+
qed

text \<open>A malformed identifier, and a valid one that no stored task has.\<close>

theorem id_guards_before_lookup_witness:
  "view_task example_env example_store (Some ''not-an-id'') = Fail 400 ''Invalid task ID'' \<and>
   delete_task example_env example_store (Some ''not-an-id'') =
     (Fail 400 ''Invalid task ID'', example_store) \<and>
   http_status (fst (delete_task example_env example_store (Some ''000000000000000000000009''))) = 404 \<and>
   snd (delete_task example_env example_store (Some ''000000000000000000000009'')) = example_store"
proof -
  have h1: "truthy (Some ''not-an-id'') \<and> oid_cast example_env (str_of (Some ''not-an-id'')) = None"
    by code_simp
  have h2: "http_status (fst (delete_task example_env example_store
              (Some ''000000000000000000000009''))) = 404"
    by code_simp
  have b: "http_status (fst (delete_task example_env example_store
              (Some ''000000000000000000000009''))) \<in> {400, 404}"
    using h2 by simp
  from id_guards_before_lookup [of "Some ''not-an-id''" example_env example_store] h1
  have c1: "view_task example_env example_store (Some ''not-an-id'') = Fail 400 ''Invalid task ID'' \<and>
   delete_task example_env example_store (Some ''not-an-id'') =
     (Fail 400 ''Invalid task ID'', example_store)" by blast
  from id_guards_before_lookup [of "Some ''000000000000000000000009''" example_env example_store] b
  have c2: "snd (delete_task example_env example_store (Some ''000000000000000000000009'')) =
      example_store" by blast
  show ?thesis using c1 c2 h2 by blast
qed

subsection \<open>Date layout\<close>
















subsection \<open>The shape of the write handlers\<close>

lemma catch_write_cases: "(\<exists>m. catch_write e = Fail 400 m) \<or> catch_write e = Crash e"
  by (cases e rule: catch_write.cases) simp_all

lemma catch_write_not_ok: "catch_write e \<noteq> TaskOk m t"
  using catch_write_cases [of e] by auto

lemma dueDate_block_Inl: "dueDate_block env v k = Inl r \<Longrightarrow> \<exists>m. r = Fail 400 m"
  by (auto simp add: dueDate_block_def parse_dueDate_def split: if_splits option.splits dest!: map_sum_Inl)

lemma validate_new_Task: "validate (new_Task store d) = validate d"
  by (cases "status d")
     (simp_all add: validate_def new_Task_def path_error_def status_validators_def v_enum_def
        validStatuses_def)

lemma save_new_Inr:
  "save_new env store d = Inr (t, store') \<Longrightarrow>
   t = new_Task store d \<and> validate d = [] \<and> storage_fault env = None \<and> store' = store @ [t]"
  by (auto simp add: save_new_def Let_def db_guard_def validate_new_Task split: list.splits option.splits)

lemma save_new_invalid:
  "validate d \<noteq> [] \<Longrightarrow> save_new env store d = Inl (ValidationError (validate d))"
  by (cases "validate d") (simp_all add: save_new_def Let_def validate_new_Task)

lemma save_existing_Inr:
  "save_existing env store d = Inr (t, store') \<Longrightarrow>
   t = d \<and> validate d = [] \<and> storage_fault env = None \<and>
   store' = map (\<lambda>u. if oid u = oid d then d else u) store"
  by (auto simp add: save_existing_def db_guard_def split: list.splits option.splits)



lemma create_task_TaskOk:
  assumes "create_task env store b = (TaskOk msg t, store')"
  shows "\<exists>pd tr.
     findOne_same env store None (anchored (interp_trim (title b)))
       (anchored (interp_trim (description b))) = Inr None \<and>
     dueDate_block env (dueDate b) None = Inr pd \<and>
     create_transcript b = Inr tr \<and>
     save_new env store (taskData b pd tr) = Inr (t, store')"
  using assms catch_write_not_ok
  by (auto simp add: create_task_def split: sum.splits option.splits dest!: dueDate_block_Inl)

lemma update_task_TaskOk:
  assumes "update_task env store u = (TaskOk msg t, store')"
  shows "\<exists>i t0 due.
     truthy (body_id u) \<and> oid_cast env (str_of (body_id u)) = Some i \<and>
     findById env store i = Inr (Some t0) \<and>
     update_duplicate env store i t0 u = Inr None \<and>
     dueDate_block env (dueDate u) (dueDate u) = Inr due \<and>
     save_existing env store (assign t0 (u\<lparr>dueDate := due\<rparr>)) = Inr (t, store')"
  using assms catch_write_not_ok
  by (auto simp add: update_task_def split: if_splits sum.splits option.splits dest!: dueDate_block_Inl)

subsection \<open>The transcript of a created task\<close>

lemma new_Task_fields:
  "title (new_Task store d) = title d" "description (new_Task store d) = description d"
  "priority (new_Task store d) = priority d" "dueDate (new_Task store d) = dueDate d"
  "transcript (new_Task store d) = transcript d"
  by (simp_all add: new_Task_def)



subsection \<open>Due dates\<close>











subsection \<open>Schema validation on the write paths\<close>



lemma path_error_nonempty: "run_validators vs v \<noteq> None \<Longrightarrow> path_error p vs v \<noteq> []"
  by (auto simp add: path_error_def)




lemma validate_status:
  "status doc = Some s \<Longrightarrow> s \<notin> set validStatuses \<Longrightarrow> validate doc \<noteq> []"
proof -
  assume a: "status doc = Some s" "s \<notin> set validStatuses"
  have "run_validators status_validators (status doc) \<noteq> None"
    using a by (simp add: status_validators_def v_enum_def)
  then show ?thesis by (simp add: validate_def path_error_nonempty)
qed







subsection \<open>The voice handlers\<close>

lemma transcript_guard_Inl: "transcript_guard v = Inl r \<Longrightarrow> \<exists>m. r = Fail 400 m"
  by (auto simp add: transcript_guard_def split: option.splits if_splits)


lemma validate_dueDate: "\<not> truthy (dueDate doc) \<Longrightarrow> validate doc \<noteq> []"
proof -
  assume "\<not> truthy (dueDate doc)"
  then have "run_validators dueDate_validators (dueDate doc) \<noteq> None"
    by (simp add: dueDate_validators_def v_required_def)
  then show ?thesis by (simp add: validate_def path_error_nonempty)
qed

lemma fallback_invalid: "validate (voice_task (fallback tr) tr) \<noteq> []"
  by (rule validate_dueDate) (simp add: voice_task_def fallback_def truthy_def)

lemma catch_voice_validation:
  "errs \<noteq> [] \<Longrightarrow> catch_voice (ValidationError errs) = Fail 400 (snd (hd errs))"
  by (cases errs) auto

lemma parse_voice_invalid:
  assumes "transcript_guard v = Inr tr" "validate (voice_task (extract_fields env 50 tr) tr) \<noteq> []"
  shows "parse_voice env store v =
           (Fail 400 (snd (hd (validate (voice_task (extract_fields env 50 tr) tr)))), store)"
  using assms by (simp add: parse_voice_def save_new_invalid catch_voice_validation)

lemma parse_voice_valid:
  assumes "transcript_guard v = Inr tr" "validate (voice_task (extract_fields env 50 tr) tr) = []"
  shows "parse_voice env store v =
           (case storage_fault env of
              Some f \<Rightarrow> (catch_voice (External f), store)
            | None \<Rightarrow>
                (TaskOk (Some ''Task created from voice input'')
                   (new_Task store (voice_task (extract_fields env 50 tr) tr)),
                 store @ [new_Task store (voice_task (extract_fields env 50 tr) tr)]))"
  using assms
  by (simp add: parse_voice_def save_new_def Let_def validate_new_Task db_guard_def split: option.splits)



lemma parse_voice_fallback:
  assumes "transcript_guard v = Inr tr" "extraction env tr = AiThrows e"
  shows "parse_voice env store v =
           (Fail 400 (snd (hd (validate (voice_task (fallback tr) tr)))), store)"
proof -
  have x: "extract_fields env 50 tr = fallback tr" using assms(2) by (simp add: extract_fields_def)
  show ?thesis using parse_voice_invalid [OF assms(1), of env store] fallback_invalid [of tr]
    unfolding x by simp
qed











text \<open>
  Claim C2. For a transcript that passes the guard, when the extraction call or the
  parse of its reply fails, both voice handlers use the local heuristic. The handler
  that only parses answers 200 with the heuristic's fields. The persisting handler
  does not: the heuristic sets no due date, the schema requires one, and the request
  is answered 400 with the message of the first failing path, storing nothing.
\<close>

theorem parse_voice_fallback_rejected:
  assumes "transcript_guard v = Inr tr" and "extraction env tr = AiThrows e"
  shows "parse_voice env store v = (Fail 400 (snd (hd (validate (voice_task (fallback tr) tr)))), store) \<and>
         validate (voice_task (fallback tr) tr) \<noteq> [] \<and>
         x_dueDate (fallback tr) = None \<and>
         parse_voice_data env v = ParsedOk (fallback tr)"
proof -
  have "parse_voice_data env v = ParsedOk (fallback tr)"
    using assms by (simp add: parse_voice_data_def extract_fields_def)
  moreover have "x_dueDate (fallback tr) = None" by (simp add: fallback_def)
  ultimately show ?thesis using parse_voice_fallback [OF assms] fallback_invalid [of tr] by simp
qed

text \<open>A transcript with the word critical, the extraction service unreachable.\<close>

theorem parse_voice_fallback_rejected_witness:
  "parse_voice example_env [] (Some ''Migrate the critical user data tomorrow'') =
     (Fail 400 ''Due date is required'', []) \<and>
   parse_voice_data example_env (Some ''Migrate the critical user data tomorrow'') =
     ParsedOk \<lparr>x_title = ''Migrate the critical user data tomorrow'',
               x_description = ''Migrate the critical user data tomorrow'',
               x_priority = ''Critical'', x_dueDate = None\<rparr>"
proof -
  let ?tr = "''Migrate the critical user data tomorrow''"
  have g: "transcript_guard (Some ?tr) = Inr ?tr" by code_simp
  have x: "extraction example_env ?tr = AiThrows unreachable" by code_simp
  have m: "snd (hd (validate (voice_task
               \<lparr>x_title = ''Migrate the critical user data tomorrow'',
                x_description = ''Migrate the critical user data tomorrow'',
                x_priority = ''Critical'', x_dueDate = None\<rparr> ?tr))) = ''Due date is required''"
    by code_simp
  have f: "fallback ?tr = \<lparr>x_title = ''Migrate the critical user data tomorrow'',
               x_description = ''Migrate the critical user data tomorrow'',
               x_priority = ''Critical'', x_dueDate = None\<rparr>"
    by code_simp
  from parse_voice_fallback_rejected [OF g x, of "[]"]
  have "parse_voice example_env [] (Some ?tr) =
          (Fail 400 (snd (hd (validate (voice_task (fallback ?tr) ?tr)))), []) \<and>
        parse_voice_data example_env (Some ?tr) = ParsedOk (fallback ?tr)"
    by blast
  then show ?thesis unfolding f m .
qed

subsection \<open>Trimming and duplicates\<close>

text \<open>The create handler and the persisting voice handler store what \<open>trim\<close> returns,
  which neither starts nor ends with a blank.\<close>

lemma trim_no_outer_space:
  "trim s = [] \<or> (\<not> is_space (hd (trim s)) \<and> \<not> is_space (last (trim s)))"
proof (cases "trim s = []")
  case True
  then show ?thesis by simp
next
  case False
  define ys where "ys = dropWhile is_space s"
  define zs where "zs = dropWhile is_space (rev ys)"
  have t: "trim s = rev zs" by (simp add: trim_def ys_def zs_def)
  have z: "zs \<noteq> []" using False t by simp
  have l: "\<not> is_space (hd zs)" using z unfolding zs_def by (rule hd_dropWhile)
  have "rev ys = takeWhile is_space (rev ys) @ zs" by (simp add: zs_def)
  then have "ys = rev zs @ rev (takeWhile is_space (rev ys))"
    by (metis rev_append rev_rev_ident)
  then have h: "hd ys = hd (rev zs)" using z by (metis hd_append2 rev_is_Nil_conv)
  have "ys \<noteq> []" using z by (auto simp add: zs_def)
  then have "\<not> is_space (hd ys)" unfolding ys_def by (rule hd_dropWhile)
  then show ?thesis using h l z t by (simp add: last_rev)
qed

lemma create_task_trimmed:
  assumes "create_task env store b = (TaskOk msg t, store')"
  shows "title t = map_option trim (title b) \<and> description t = map_option trim (description b)"
proof -
  from create_task_TaskOk [OF assms] obtain pd tr where
    "save_new env store (taskData b pd tr) = Inr (t, store')" by blast
  from save_new_Inr [OF this] show ?thesis by (simp add: new_Task_fields taskData_def)
qed

lemma parse_voice_trimmed:
  assumes "parse_voice env store v = (TaskOk msg t, store')"
  shows "\<exists>tr. transcript_guard v = Inr tr \<and>
           title t = Some (trim (x_title (extract_fields env 50 tr))) \<and>
           description t = Some (trim (x_description (extract_fields env 50 tr)))"
proof -
  from assms obtain tr where g: "transcript_guard v = Inr tr"
    by (cases "transcript_guard v") (auto simp add: parse_voice_def dest!: transcript_guard_Inl)
  have ok: "validate (voice_task (extract_fields env 50 tr) tr) = []"
    using assms parse_voice_invalid [OF g, of env store] by (cases "validate (voice_task (extract_fields env 50 tr) tr) = []") auto
  have "t = new_Task store (voice_task (extract_fields env 50 tr) tr)"
    using assms parse_voice_valid [OF g ok, of store]
    by (cases "storage_fault env") (auto split: if_splits)
  then show ?thesis using g by (simp add: new_Task_fields voice_task_def)
qed

text \<open>
  Claim C3. The update handler assigns the request body to the task as it is: a title
  sent with blanks around it passes validation and is stored with the blanks.
\<close>

theorem update_stores_untrimmed:
  "update_task example_env [example_task]
     \<lparr>title = Some ''  Prepare quarterly report  '', description = None, status = None,
      priority = None, dueDate = None, transcript = None, body_id = Some example_id\<rparr> =
   (TaskOk None (example_task\<lparr>title := Some ''  Prepare quarterly report  ''\<rparr>),
    [example_task\<lparr>title := Some ''  Prepare quarterly report  ''\<rparr>]) \<and>
   trim ''  Prepare quarterly report  '' = ''Prepare quarterly report'' \<and>
   is_space (hd ''  Prepare quarterly report  '') \<and> is_space (last ''  Prepare quarterly report  '')"
  by code_simp

text \<open>
  Claim C5. The duplicate check hands the trimmed title and description to the
  database as patterns without escaping them. A title with a full stop matches a stored
  title that has any other character in that place, so the request is rejected as a
  duplicate although the two titles differ.
\<close>

theorem duplicate_pattern_unescaped:
  "create_task example_env [example_task]
     \<lparr>title = Some ''Deploy v1.0 to production'', description = Some ''Roll out the new build'',
      status = None, priority = Some ''High'', dueDate = Some ''31-12-2099'', transcript = None\<rparr> =
   (Fail 400 ''Task with same title and description already exists'', [example_task]) \<and>
   title example_task = Some ''Deploy v1x0 to production'' \<and>
   toLowerCase ''Deploy v1.0 to production'' \<noteq> toLowerCase ''Deploy v1x0 to production''"
  by code_simp

subsection \<open>An invariant of the collection\<close>

text \<open>
  No write handler stores a status outside the three allowed ones: the bucket counts
  of the board therefore add up to the number of tasks matching its filters.
\<close>

lemma create_status_valid: "create_status st \<in> Some ` set validStatuses"
  by (auto simp add: create_status_def js_or_def truthy_def validStatuses_def split: option.splits)

lemma validate_Nil_status:
  "validate doc = [] \<Longrightarrow> status doc = None \<or> status doc \<in> Some ` set validStatuses"
  using validate_status [of doc] by (cases "status doc") auto

lemma delete_first_subset: "set (delete_first i ts) \<subseteq> set ts"
  by (induction ts) auto

lemma stored_statuses_stay_valid:
  assumes "\<forall>t\<in>set store. status t \<in> Some ` set validStatuses"
  shows "(\<forall>t\<in>set (snd (create_task env store b)). status t \<in> Some ` set validStatuses) \<and>
         (\<forall>t\<in>set (snd (update_task env store u)). status t \<in> Some ` set validStatuses) \<and>
         (\<forall>t\<in>set (snd (delete_task env store qid)). status t \<in> Some ` set validStatuses) \<and>
         (\<forall>t\<in>set (snd (parse_voice env store v)). status t \<in> Some ` set validStatuses)"
proof (intro conjI)
  show "\<forall>t\<in>set (snd (create_task env store b)). status t \<in> Some ` set validStatuses"
  proof (cases "\<exists>msg t st. create_task env store b = (TaskOk msg t, st)")
    case True
    then obtain msg t st where r: "create_task env store b = (TaskOk msg t, st)" by blast
    from create_task_TaskOk [OF r] obtain pd tr where
      "save_new env store (taskData b pd tr) = Inr (t, st)" by blast
    from save_new_Inr [OF this] have "st = store @ [t]" "status t = create_status (status b)"
      using create_status_valid [of "status b"] by (auto simp add: new_Task_def taskData_def)
    then show ?thesis using assms r create_status_valid [of "status b"] by auto
  next
    case False
    then have "snd (create_task env store b) = store"
      by (auto simp add: create_task_def split: sum.splits option.splits)
    then show ?thesis using assms by simp
  qed
next
  show "\<forall>t\<in>set (snd (update_task env store u)). status t \<in> Some ` set validStatuses"
  proof (cases "\<exists>msg t st. update_task env store u = (TaskOk msg t, st)")
    case True
    then obtain msg t st where r: "update_task env store u = (TaskOk msg t, st)" by blast
    from update_task_TaskOk [OF r] obtain i t0 due where
      f: "findById env store i = Inr (Some t0)"
      and sv: "save_existing env store (assign t0 (u\<lparr>dueDate := due\<rparr>)) = Inr (t, st)" by blast
    from f have "t0 \<in> set store"
      by (auto simp add: findById_def db_guard_def find_Some_iff split: option.splits)
    then have s0: "status t0 \<in> Some ` set validStatuses" using assms by simp
    from save_existing_Inr [OF sv] have t: "t = assign t0 (u\<lparr>dueDate := due\<rparr>)" "validate t = []"
      and st: "st = map (\<lambda>x. if oid x = oid t then t else x) store" by simp_all
    have "status t \<in> Some ` set validStatuses"
      using validate_Nil_status [OF t(2)] s0 by (auto simp add: t(1) assign_def split: option.splits)
    then show ?thesis using assms r st by auto
  next
    case False
    then have "snd (update_task env store u) = store"
      by (auto simp add: update_task_def split: if_splits sum.splits option.splits)
    then show ?thesis using assms by simp
  qed
next
  have "set (snd (delete_task env store qid)) \<subseteq> set store"
    using delete_first_subset [of _ store]
    by (auto simp add: delete_task_def split: if_splits sum.splits option.splits)
  then show "\<forall>t\<in>set (snd (delete_task env store qid)). status t \<in> Some ` set validStatuses"
    using assms by blast
next
  show "\<forall>t\<in>set (snd (parse_voice env store v)). status t \<in> Some ` set validStatuses"
    using assms
    by (auto simp add: parse_voice_def save_new_def Let_def db_guard_def new_Task_def voice_task_def
          validStatuses_def split: sum.splits list.splits option.splits)
qed

end
